theory Spec2Isabelle
  imports Main
begin

section \<open>Go strings and the library functions the generator calls\<close>

text \<open>
  A Go string is a sequence of bytes, so it is a \<open>string\<close> (a list of 8-bit
  \<open>char\<close>s) here, and every index and length counts bytes as Go does.
  The generator (generator.go) calls a few functions of Go's standard library
  (\<open>strings.Index\<close>, \<open>strings.Trim\<close>, \<open>strings.Split\<close>, \<open>reflect.StructTag.Get\<close>);
  they are modelled in this section from the library's documented behaviour.
\<close>

definition byte :: "char \<Rightarrow> nat" where
  "byte c = of_char c"

text \<open>\<open>strings.Index(s, sep)\<close> for a one-byte separator: the index of its first
  occurrence, or \<open>-1\<close>.\<close>

definition Index :: "string \<Rightarrow> char \<Rightarrow> int" where
  "Index s sep = (if sep \<in> set s then int (length (takeWhile (\<lambda>c. c \<noteq> sep) s)) else - 1)"

text \<open>\<open>strings.Trim(s, cutset)\<close>: \<open>s\<close> without its leading and trailing bytes that
  lie in \<open>cutset\<close> (the generator's cutset is the one ASCII byte \<open>"\<close>).\<close>

definition Trim :: "string \<Rightarrow> string \<Rightarrow> string" where
  "Trim s cutset =
     rev (dropWhile (\<lambda>c. c \<in> set cutset) (rev (dropWhile (\<lambda>c. c \<in> set cutset) s)))"

text \<open>\<open>strings.Split(s, sep)\<close> for a one-byte separator: the pieces between the
  separators, one more than there are separators (\<open>Split("", "/")\<close> is \<open>[""]\<close>).\<close>

fun Split :: "string \<Rightarrow> char \<Rightarrow> string list" where
  "Split [] sep = [[]]"
| "Split (c # cs) sep =
     (if c = sep then [] # Split cs sep
      else (case Split cs sep of [] \<Rightarrow> [[c]] | p # ps \<Rightarrow> (c # p) # ps))"

subsection \<open>strconv.Unquote on a double-quoted string\<close>

text \<open>
  \<open>reflect.StructTag.Lookup\<close> hands the quoted value of an entry (it always starts
  with \<open>"\<close>) to \<open>strconv.Unquote\<close>. Unquoting fails on a newline, on an
  unescaped quote before the end and on a malformed escape; a valid UTF-8 sequence is
  copied, any other byte from 0x80 on becomes the replacement character U+FFFD.
\<close>

definition unhex :: "char \<Rightarrow> nat option" where
  "unhex c =
     (let b = byte c in
      if 48 \<le> b \<and> b \<le> 57 then Some (b - 48)
      else if 97 \<le> b \<and> b \<le> 102 then Some (b - 97 + 10)
      else if 65 \<le> b \<and> b \<le> 70 then Some (b - 65 + 10)
      else None)"

fun hexValue :: "string \<Rightarrow> nat \<Rightarrow> nat option" where
  "hexValue [] v = Some v"
| "hexValue (c # cs) v = (case unhex c of None \<Rightarrow> None | Some x \<Rightarrow> hexValue cs (16 * v + x))"

definition ValidRune :: "nat \<Rightarrow> bool" where
  "ValidRune r = (r < 55296 \<or> (57343 < r \<and> r \<le> 1114111))"

text \<open>\<open>utf8.AppendRune\<close> on a valid rune.\<close>

definition EncodeRune :: "nat \<Rightarrow> string" where
  "EncodeRune r =
     (if r < 128 then [char_of r]
      else if r < 2048 then [char_of (192 + r div 64), char_of (128 + r mod 64)]
      else if r < 65536 then
        [char_of (224 + r div 4096), char_of (128 + (r div 64) mod 64), char_of (128 + r mod 64)]
      else
        [char_of (240 + r div 262144), char_of (128 + (r div 4096) mod 64),
         char_of (128 + (r div 64) mod 64), char_of (128 + r mod 64)])"

definition cont :: "nat \<Rightarrow> nat \<Rightarrow> char \<Rightarrow> bool" where
  "cont lo hi c = (lo \<le> byte c \<and> byte c \<le> hi)"

text \<open>The size of the UTF-8 sequence at the head of the string as
  \<open>utf8.DecodeRuneInString\<close> accepts it, or 0 for an invalid or incomplete one.\<close>

definition runeLen :: "string \<Rightarrow> nat" where
  "runeLen s =
     (case s of
        [] \<Rightarrow> 0
      | c # cs \<Rightarrow>
          (let b = byte c in
           if b < 128 then 1
           else if 194 \<le> b \<and> b \<le> 223 then
             (case cs of c1 # _ \<Rightarrow> if cont 128 191 c1 then 2 else 0 | _ \<Rightarrow> 0)
           else if 224 \<le> b \<and> b \<le> 239 then
             (case cs of
                c1 # c2 # _ \<Rightarrow>
                  if cont (if b = 224 then 160 else 128) (if b = 237 then 159 else 191) c1
                     \<and> cont 128 191 c2
                  then 3 else 0
              | _ \<Rightarrow> 0)
           else if 240 \<le> b \<and> b \<le> 244 then
             (case cs of
                c1 # c2 # c3 # _ \<Rightarrow>
                  if cont (if b = 240 then 144 else 128) (if b = 244 then 143 else 191) c1
                     \<and> cont 128 191 c2 \<and> cont 128 191 c3
                  then 4 else 0
              | _ \<Rightarrow> 0)
           else 0))"

text \<open>\<open>strconv.UnquoteChar\<close> after a backslash, inside double quotes: the bytes the
  escape stands for and the number of bytes it takes after the backslash.\<close>

definition unquoteEscape :: "string \<Rightarrow> (string \<times> nat) option" where
  "unquoteEscape s =
     (case s of
        [] \<Rightarrow> None
      | c # cs \<Rightarrow>
          if c = CHR ''a'' then Some ([char_of (7::nat)], 1)
          else if c = CHR ''b'' then Some ([char_of (8::nat)], 1)
          else if c = CHR ''f'' then Some ([char_of (12::nat)], 1)
          else if c = CHR ''n'' then Some ([char_of (10::nat)], 1)
          else if c = CHR ''r'' then Some ([char_of (13::nat)], 1)
          else if c = CHR ''t'' then Some ([char_of (9::nat)], 1)
          else if c = CHR ''v'' then Some ([char_of (11::nat)], 1)
          else if c = CHR ''x'' then
            (if length cs < 2 then None
             else (case hexValue (take 2 cs) 0 of None \<Rightarrow> None
                   | Some v \<Rightarrow> Some ([char_of v], 3)))
          else if c = CHR ''u'' \<or> c = CHR ''U'' then
            (let n = (if c = CHR ''u'' then 4 else 8) in
             if length cs < n then None
             else (case hexValue (take n cs) 0 of None \<Rightarrow> None
                   | Some v \<Rightarrow> if ValidRune v then Some (EncodeRune v, n + 1) else None))
          else if 48 \<le> byte c \<and> byte c \<le> 55 then
            (case cs of
               c1 # c2 # _ \<Rightarrow>
                 if 48 \<le> byte c1 \<and> byte c1 \<le> 55 \<and> 48 \<le> byte c2 \<and> byte c2 \<le> 55
                 then (let v = 64 * (byte c - 48) + 8 * (byte c1 - 48) + (byte c2 - 48)
                       in if v > 255 then None else Some ([char_of v], 3))
                 else None
             | _ \<Rightarrow> None)
          else if c = CHR 0x5C then Some ([CHR 0x5C], 1)
          else if c = CHR 0x22 then Some ([CHR 0x22], 1)
          else None)"

text \<open>The bytes after the opening quote, up to the closing quote, which must be the last
  byte.\<close>

fun unquoteBody :: "string \<Rightarrow> string option" where
  "unquoteBody [] = None"
| "unquoteBody (c # cs) =
     (if c = CHR 0x22 then (if cs = [] then Some [] else None)
      else if c = CHR 0x0A then None
      else if c = CHR 0x5C then
        (case unquoteEscape cs of
           None \<Rightarrow> None
         | Some (bs, n) \<Rightarrow> map_option (\<lambda>r. bs @ r) (unquoteBody (drop n cs)))
      else if 128 \<le> byte c then
        (let n = runeLen (c # cs) in
         if n = 0 then map_option (\<lambda>r. EncodeRune 65533 @ r) (unquoteBody cs)
         else map_option (\<lambda>r. take n (c # cs) @ r) (unquoteBody (drop (n - 1) cs)))
      else map_option (\<lambda>r. c # r) (unquoteBody cs))"

definition Unquote :: "string \<Rightarrow> string option" where
  "Unquote s = (case s of [] \<Rightarrow> None | q # cs \<Rightarrow> if q = CHR 0x22 then unquoteBody cs else None)"

subsection \<open>reflect.StructTag\<close>

text \<open>
  \<open>Lookup\<close> scans a tag string of the conventional form \<open>key:"value" key:"value"\<close>.
  One round of its loop skips leading spaces, scans a name up to the colon (a space,
  a quote, a colon or a control byte ends the name), scans the quoted value after it
  (a backslash skips the byte that follows) and leaves the rest of the tag; the loop
  breaks, and the lookup finds nothing, as soon as the tag does not have that form.
\<close>

definition nameByte :: "char \<Rightarrow> bool" where
  "nameByte c = (byte c > 32 \<and> c \<noteq> CHR '':'' \<and> c \<noteq> CHR 0x22 \<and> byte c \<noteq> 127)"

text \<open>The loop \<open>for i < len(tag) && tag[i] != '"' { if tag[i] == '\\' { i++ }; i++ }\<close>,
  run on the bytes from position \<open>i\<close> on.\<close>

fun scanValue :: "string \<Rightarrow> nat \<Rightarrow> nat" where
  "scanValue [] i = i"
| "scanValue (c # cs) i =
     (if c = CHR 0x22 then i
      else if c = CHR 0x5C then (case cs of [] \<Rightarrow> i + 2 | _ # cs' \<Rightarrow> scanValue cs' (i + 2))
      else scanValue cs (i + 1))"

text \<open>One round of the loop: the entry's name, its quoted value and the rest of the tag;
  \<open>None\<close> where the loop ends or breaks.\<close>

definition nextEntry :: "string \<Rightarrow> (string \<times> string \<times> string) option" where
  "nextEntry tag0 =
     (let tag = dropWhile (\<lambda>c. c = CHR '' '') tag0 in
      if tag = [] then None
      else
        let i = length (takeWhile nameByte tag) in
        if i = 0 \<or> i + 1 \<ge> length tag \<or> tag ! i \<noteq> CHR '':'' \<or> tag ! (i + 1) \<noteq> CHR 0x22
        then None
        else
          let name = take i tag;
              tag1 = drop (i + 1) tag;
              j = scanValue (tl tag1) 1
          in if j \<ge> length tag1 then None
             else Some (name, take (j + 1) tag1, drop (j + 1) tag1))"

function StructTag_Lookup :: "string \<Rightarrow> string \<Rightarrow> string option" where
  "StructTag_Lookup tag key =
     (case nextEntry tag of
        None \<Rightarrow> None
      | Some (name, qvalue, rest) \<Rightarrow>
          if key = name then Unquote qvalue else StructTag_Lookup rest key)"
  by pat_completeness auto
termination
proof (relation "measure (\<lambda>(tag, key). length tag)")
  show "wf (measure (\<lambda>(tag, key). length tag))"
    by simp
next
  fix tag key :: string and entry name rest' qvalue rest
  assume "nextEntry tag = Some entry" and "(name, rest') = entry" and "(qvalue, rest) = rest'"
  then have e: "nextEntry tag = Some (name, qvalue, rest)"
    by simp
  let ?t = "dropWhile (\<lambda>c. c = CHR '' '') tag"
  have "length ?t \<le> length tag"
    by (rule length_dropWhile_le)
  moreover from e have "?t \<noteq> []"
    by (auto simp: nextEntry_def Let_def split: if_splits)
  moreover from e have "\<exists>i j. rest = drop (j + 1) (drop (i + 1) ?t)"
    by (auto simp: nextEntry_def Let_def split: if_splits)
  ultimately have "length rest < length tag"
    by (cases ?t) auto
  then show "((rest, key), (tag, key)) \<in> measure (\<lambda>(tag, key). length tag)"
    by simp
qed

text \<open>\<open>Get\<close> returns the value of the entry, or the empty string when \<open>Lookup\<close> finds
  none.\<close>

definition StructTag_Get :: "string \<Rightarrow> string \<Rightarrow> string" where
  "StructTag_Get tag key = (case StructTag_Lookup tag key of None \<Rightarrow> [] | Some v \<Rightarrow> v)"

section \<open>The syntax tree the generator reads (go/ast)\<close>

text \<open>
  The generator receives the tree that \<open>go/parser\<close> builds. An expression is one
  of the kinds \<open>determineType\<close> tells apart, or another kind (\<open>OtherExpr\<close>: its Go type
  name as \<open>%T\<close> prints it, and its sub-expressions in the order \<open>ast.Walk\<close> visits them).
  A \<open>BasicLit\<close> keeps the literal as it stands in the source text: the \<open>Value\<close> of a field's
  tag and of an import path includes the quotes or back-quotes around it. A field's
  \<open>Tag\<close> and an import's \<open>Name\<close> may be nil (\<open>None\<close>); an array type's \<open>Len\<close> is nil for a
  slice. Every other node (a declaration, a statement) only matters for the type
  specifications below it: it is a \<open>Node\<close> with its children in walk order.
\<close>

datatype Expr =
    Ident string
  | SelectorExpr Expr string
  | MapType Expr Expr
  | ArrayType "Expr option" Expr
  | StarExpr Expr
  | StructType "Field list"
  | BasicLit string
  | FuncLit "Node list"
  | OtherExpr string "Expr list"
and Field =
    Field (Field_Names: "string list") (Field_Type: Expr) (Field_Tag: "string option")
and TypeSpec =
    TypeSpec (TypeSpec_Name: string) (TypeSpec_Type: Expr)
and Node =
    TypeSpecNode TypeSpec
  | GenDecl "Node list"
  | FuncDecl string "Node list"
  | DeclStmt Node
  | ExprNode Expr
  | OtherNode "Node list"

text \<open>The dynamic type of an expression node, as \<open>%T\<close> and the runtime print it.\<close>

fun goType :: "Expr \<Rightarrow> string" where
  "goType (Ident n) = ''*ast.Ident''"
| "goType (SelectorExpr x sel) = ''*ast.SelectorExpr''"
| "goType (MapType k v) = ''*ast.MapType''"
| "goType (ArrayType len elt) = ''*ast.ArrayType''"
| "goType (StarExpr x) = ''*ast.StarExpr''"
| "goType (StructType flds) = ''*ast.StructType''"
| "goType (BasicLit v) = ''*ast.BasicLit''"
| "goType (FuncLit body) = ''*ast.FuncLit''"
| "goType (OtherExpr tn es) = tn"

datatype ImportSpec =
  ImportSpec (ImportSpec_Name: "string option") (ImportSpec_Path: string)

datatype ast_File =
  ast_File (File_Imports: "ImportSpec list") (File_Decls: "Node list")

text \<open>
  \<open>ast.Inspect\<close> calls its function on every node, depth first, parents before
  children; the function of \<open>File\<close> always answers \<open>true\<close> (descend) and acts on
  \<open>*ast.TypeSpec\<close> nodes only. So what the traversal contributes is the sequence of
  type specifications in that order, wherever they stand in the file.
\<close>

fun InspectExpr :: "Expr \<Rightarrow> TypeSpec list"
  and InspectField :: "Field \<Rightarrow> TypeSpec list"
  and InspectTypeSpec :: "TypeSpec \<Rightarrow> TypeSpec list"
  and InspectNode :: "Node \<Rightarrow> TypeSpec list" where
  "InspectExpr (Ident n) = []"
| "InspectExpr (SelectorExpr x sel) = InspectExpr x"
| "InspectExpr (MapType k v) = InspectExpr k @ InspectExpr v"
| "InspectExpr (ArrayType len elt) =
     (case len of None \<Rightarrow> [] | Some l \<Rightarrow> InspectExpr l) @ InspectExpr elt"
| "InspectExpr (StarExpr x) = InspectExpr x"
| "InspectExpr (StructType flds) = concat (map InspectField flds)"
| "InspectExpr (BasicLit v) = []"
| "InspectExpr (FuncLit body) = concat (map InspectNode body)"
| "InspectExpr (OtherExpr tn es) = concat (map InspectExpr es)"
| "InspectField (Field names t tag) = InspectExpr t"
| "InspectTypeSpec (TypeSpec n t) = TypeSpec n t # InspectExpr t"
| "InspectNode (TypeSpecNode ts) = InspectTypeSpec ts"
| "InspectNode (GenDecl specs) = concat (map InspectNode specs)"
| "InspectNode (FuncDecl n body) = concat (map InspectNode body)"
| "InspectNode (DeclStmt d) = InspectNode d"
| "InspectNode (ExprNode e) = InspectExpr e"
| "InspectNode (OtherNode ns) = concat (map InspectNode ns)"

definition Inspect :: "ast_File \<Rightarrow> TypeSpec list" where
  "Inspect file = concat (map InspectNode (File_Decls file))"

section \<open>The code the generator builds (jennifer)\<close>

text \<open>
  The generator writes through the builder of the \<open>jen\<close> library. A statement is the
  list of the items that the chained calls added to it, one constructor per call
  (\<open>jen.Id(n)\<close>, \<open>jen.Qual(path, n)\<close>, \<open>.Map(k)\<close>, \<open>.Index()\<close>, \<open>.Op("*")\<close>, ...); \<open>.Add(c)\<close>
  adds the statement \<open>c\<close> itself as an item. A \<open>jen.File\<close> holds the package name, the
  header comments, the import names and aliases registered with it, and the statements
  added so far. Rendering the file to text (\<open>GoString\<close>, the body of \<open>Generate\<close>) is the
  library's and is not modelled: the generated unit is the file as built.
\<close>

datatype Code =
    jen_Id string
  | jen_Qual string string
  | jen_Lit string
  | jen_Op string
  | jen_String
  | jen_Any
  | jen_Type
  | jen_Func
  | jen_Return "Code list"
  | jen_Map Code
  | jen_Index "Code list"
  | jen_Params "Code list"
  | jen_Block "Code list"
  | jen_Assert Code
  | jen_Comment string
  | jen_Line
  | Statement "Code list"

datatype importdef =
  importdef (def_name: string) (def_alias: bool)

record jen_File =
  file_name :: string
  file_headers :: "string list"
  file_hints :: "(string \<times> importdef) list"
  file_items :: "Code list"

section \<open>The generator (generator.go)\<close>

record GeneratorOpts =
  Package :: string
  StructTag :: string
  TypePrefix :: string

text \<open>The field \<open>file\<close> of the Go struct is \<open>jfile\<close> here.\<close>

record Generator =
  opts :: GeneratorOpts
  jfile :: jen_File

text \<open>
  A panic ends the generation: nothing recovers from it, so no file is returned.
  \<open>Panic\<close> carries the message of an explicit \<open>panic(...)\<close>; \<open>RuntimeError\<close> is a panic of
  the Go runtime (an index out of range, a failed type assertion), with the message of
  the runtime's error.
\<close>

datatype panic =
    Panic string
  | RuntimeError string

definition NewGenerator :: "GeneratorOpts \<Rightarrow> Generator" where
  "NewGenerator os =
     \<lparr>opts = os,
      jfile = \<lparr>file_name = Package os,
               file_headers = [''Code generated by particle.'',
                               ''https://github.com/lukasl-dev/particle''],
               file_hints = [],
               file_items = []\<rparr>\<rparr>"

text \<open>A call \<open>g.file.X(...)\<close> adds a new statement at the end of the file.\<close>

definition emit :: "Generator \<Rightarrow> Code \<Rightarrow> Generator" where
  "emit g c = g\<lparr>jfile := (jfile g)\<lparr>file_items := file_items (jfile g) @ [c]\<rparr>\<rparr>"

text \<open>\<open>ImportName\<close> and \<open>ImportAlias\<close> register a package path with the file.\<close>

definition hint :: "Generator \<Rightarrow> string \<Rightarrow> importdef \<Rightarrow> Generator" where
  "hint g path d = g\<lparr>jfile := (jfile g)\<lparr>file_hints := file_hints (jfile g) @ [(path, d)]\<rparr>\<rparr>"

definition Import :: "Generator \<Rightarrow> ImportSpec \<Rightarrow> Generator" where
  \<open>Import g imp =
     (case ImportSpec_Name imp of
        None \<Rightarrow> hint g (Trim (ImportSpec_Path imp) ''"'') (importdef [] False)
      | Some n \<Rightarrow> hint g (Trim (ImportSpec_Path imp) ''"'') (importdef n True))\<close>

fun Imports :: "Generator \<Rightarrow> ImportSpec list \<Rightarrow> Generator" where
  "Imports g [] = g"
| "Imports g (i # imp) = Imports (Import g i) imp"

definition Type :: "Generator \<Rightarrow> TypeSpec \<Rightarrow> panic + Generator" where
  "Type g typ =
     (case TypeSpec_Type typ of
        StructType flds \<Rightarrow>
          Inr (emit
                (emit g (Statement [jen_Comment
                   (TypePrefix (opts g) @ TypeSpec_Name typ @ '' is a partial type.'')]))
                (Statement [jen_Type, jen_Id (TypePrefix (opts g) @ TypeSpec_Name typ),
                            jen_Map (Statement [jen_String]), jen_Any]))
      | _ \<Rightarrow> Inl (Panic ''partial type must be a struct''))"

definition Line :: "Generator \<Rightarrow> Generator" where
  "Line g = emit g (Statement [jen_Line])"

text \<open>\<open>field.Names[0]\<close> is an index into a slice: on an empty one the runtime panics.\<close>

definition firstName :: "Field \<Rightarrow> panic + string" where
  "firstName field =
     (case Field_Names field of
        [] \<Rightarrow> Inl (RuntimeError ''runtime error: index out of range [0] with length 0'')
      | n # ns \<Rightarrow> Inr n)"

definition fieldNames :: "Generator \<Rightarrow> Field \<Rightarrow> panic + (string \<times> string)" where
  "fieldNames g field =
     (let byName = (case firstName field of Inl e \<Rightarrow> Inl e | Inr n \<Rightarrow> Inr (n, n)) in
      if StructTag (opts g) \<noteq> [] then
        (case Field_Tag field of
           None \<Rightarrow> byName
         | Some lit \<Rightarrow>
             let tag = StructTag_Get lit (StructTag (opts g)) in
             if tag \<noteq> [] then
               let i = Index tag (CHR '','');
                   tag1 = (if i \<noteq> - 1 then take (nat i) tag else tag)
               in (case firstName field of Inl e \<Rightarrow> Inl e | Inr n \<Rightarrow> Inr (n, tag1))
             else byName)
      else byName)"

text \<open>
  \<open>qualify\<close> returns Go's triple \<open>(name, pkg, err)\<close>; the type assertion
  \<open>expr.X.(*ast.Ident)\<close> panics when \<open>X\<close> is not an identifier. Neither \<open>qualify\<close> nor
  \<open>determineType\<close> reads its receiver, which is left out.
\<close>

fun qualifyLoop :: "string \<Rightarrow> string \<Rightarrow> ImportSpec list \<Rightarrow> string \<times> string \<times> string option" where
  "qualifyLoop pkgName sel [] = ([], [], Some ''could not find import'')"
| \<open>qualifyLoop pkgName sel (imp # imports) =
     (let path = Trim (ImportSpec_Path imp) ''"'';
          split = Split path (CHR ''/'');
          last = last split
      in if last = pkgName \<or> (ImportSpec_Name imp \<noteq> None \<and> ImportSpec_Name imp = Some pkgName)
         then (sel, path, None)
         else qualifyLoop pkgName sel imports)\<close>

definition qualify ::
  "Expr \<Rightarrow> string \<Rightarrow> ImportSpec list \<Rightarrow> panic + (string \<times> string \<times> string option)" where
  "qualify x sel imports =
     (case x of
        Ident pkgName \<Rightarrow> Inr (qualifyLoop pkgName sel imports)
      | _ \<Rightarrow>
          Inl (RuntimeError
                 (''interface conversion: ast.Expr is '' @ goType x @ '', not *ast.Ident'')))"

fun determineType :: "Expr \<Rightarrow> ImportSpec list \<Rightarrow> panic + Code" where
  "determineType (Ident n) imp = Inr (Statement [jen_Id n])"
| "determineType (SelectorExpr x sel) imp =
     (case qualify x sel imp of
        Inl e \<Rightarrow> Inl e
      | Inr (fieldTypeName, fieldTypePkg, err) \<Rightarrow>
          (case err of
             Some msg \<Rightarrow> Inl (Panic (''could not qualify type: '' @ msg))
           | None \<Rightarrow> Inr (Statement [jen_Qual fieldTypePkg fieldTypeName])))"
| "determineType (MapType k v) imp =
     (case determineType k imp of
        Inl e \<Rightarrow> Inl e
      | Inr key \<Rightarrow>
          (case determineType v imp of
             Inl e \<Rightarrow> Inl e
           | Inr val \<Rightarrow> Inr (Statement [jen_Map key, val])))"
| "determineType (ArrayType len elt) imp =
     (case determineType elt imp of
        Inl e \<Rightarrow> Inl e
      | Inr t \<Rightarrow> Inr (Statement [jen_Index [], t]))"
| "determineType (StarExpr x) imp =
     (case determineType x imp of
        Inl e \<Rightarrow> Inl e
      | Inr t \<Rightarrow> Inr (Statement [jen_Op ''*'', t]))"
| "determineType (StructType flds) imp =
     Inl (Panic (''unsupported type '' @ goType (StructType flds)))"
| "determineType (BasicLit v) imp = Inl (Panic (''unsupported type '' @ goType (BasicLit v)))"
| "determineType (FuncLit body) imp = Inl (Panic (''unsupported type '' @ goType (FuncLit body)))"
| "determineType (OtherExpr tn es) imp =
     Inl (Panic (''unsupported type '' @ goType (OtherExpr tn es)))"

definition AccessFunc ::
  "Generator \<Rightarrow> TypeSpec \<Rightarrow> Field \<Rightarrow> ImportSpec list \<Rightarrow> panic + Generator" where
  "AccessFunc g typ field imp =
     (if length (Field_Names field) = 0 then Inl (Panic ''field must have a name'')
      else
        (case fieldNames g field of
           Inl e \<Rightarrow> Inl e
         | Inr (fieldName, fieldKey) \<Rightarrow>
             let g1 = emit g (Statement [jen_Comment
                        (fieldName @ '' returns the value of the '' @ [CHR 0x27] @ fieldKey
                           @ [CHR 0x27] @ '' field.'')])
             in (case determineType (Field_Type field) imp of
                   Inl e \<Rightarrow> Inl e
                 | Inr t \<Rightarrow>
                     (case determineType (Field_Type field) imp of
                        Inl e \<Rightarrow> Inl e
                      | Inr ta \<Rightarrow>
                          Inr (emit g1
                            (Statement
                              [jen_Func,
                               jen_Params [Statement [jen_Id ''p'',
                                  jen_Id (TypePrefix (opts g) @ TypeSpec_Name typ)]],
                               jen_Id fieldName,
                               jen_Params [],
                               t,
                               jen_Block
                                 [Statement
                                    [jen_Return [Statement [jen_Id ''p'',
                                        jen_Index [Statement [jen_Lit fieldKey]]]],
                                     jen_Assert ta]]]))))))"

definition WithFunc ::
  "Generator \<Rightarrow> TypeSpec \<Rightarrow> Field \<Rightarrow> ImportSpec list \<Rightarrow> panic + Generator" where
  "WithFunc g typ field imp =
     (case fieldNames g field of
        Inl e \<Rightarrow> Inl e
      | Inr (fieldName, fieldKey) \<Rightarrow>
          let g1 = emit g (Statement [jen_Comment
                     (''With'' @ fieldName @ '' updates p with the given v and returns p again.'')])
          in (case determineType (Field_Type field) imp of
                Inl e \<Rightarrow> Inl e
              | Inr t \<Rightarrow>
                  Inr (emit g1
                    (Statement
                      [jen_Func,
                       jen_Params [Statement [jen_Id ''p'',
                          jen_Id (TypePrefix (opts g) @ TypeSpec_Name typ)]],
                       jen_Id (''With'' @ fieldName),
                       jen_Params [Statement [jen_Id ''v'', t]],
                       jen_Id (TypePrefix (opts g) @ TypeSpec_Name typ),
                       jen_Block
                         [Statement [jen_Id ''p'', jen_Index [Statement [jen_Lit fieldKey]],
                                     jen_Op ''='', jen_Id ''v''],
                          Statement [jen_Return [Statement [jen_Id ''p'']]]]]))))"

text \<open>The loop over the fields of a struct, and the function \<open>File\<close> hands to
  \<open>ast.Inspect\<close>, run on one type specification.\<close>

fun fieldsLoop ::
  "Generator \<Rightarrow> TypeSpec \<Rightarrow> Field list \<Rightarrow> ImportSpec list \<Rightarrow> panic + Generator" where
  "fieldsLoop g node [] imp = Inr g"
| "fieldsLoop g node (field # flds) imp =
     (case AccessFunc g node field imp of
        Inl e \<Rightarrow> Inl e
      | Inr g1 \<Rightarrow>
          (case WithFunc (Line g1) node field imp of
             Inl e \<Rightarrow> Inl e
           | Inr g2 \<Rightarrow> fieldsLoop (Line g2) node flds imp))"

definition visit :: "Generator \<Rightarrow> ImportSpec list \<Rightarrow> TypeSpec \<Rightarrow> panic + Generator" where
  "visit g imp node =
     (case TypeSpec_Type node of
        StructType flds \<Rightarrow>
          (case Type g node of
             Inl e \<Rightarrow> Inl e
           | Inr g1 \<Rightarrow> fieldsLoop g1 node flds imp)
      | _ \<Rightarrow> Inr g)"

fun visitAll :: "Generator \<Rightarrow> ImportSpec list \<Rightarrow> TypeSpec list \<Rightarrow> panic + Generator" where
  "visitAll g imp [] = Inr g"
| "visitAll g imp (node # nodes) =
     (case visit g imp node of
        Inl e \<Rightarrow> Inl e
      | Inr g1 \<Rightarrow> visitAll g1 imp nodes)"

definition File :: "Generator \<Rightarrow> ast_File \<Rightarrow> panic + Generator" where
  "File g f = visitAll (Imports g (File_Imports f)) (File_Imports f) (Inspect f)"

section \<open>The notions of the specification\<close>

text \<open>
  The definitions of this section follow the words of the specification (spec.md) or
  name what the code does, so that the theorems of the last section can compare them
  with the functions of generator.go above.
\<close>

subsection \<open>Field keys\<close>

definition truncateAtComma :: "string \<Rightarrow> string" where
  "truncateAtComma v = takeWhile (\<lambda>c. c \<noteq> CHR '','') v"

text \<open>The tag string that a tag literal denotes: what stands between the back-quotes
  (carriage returns dropped), or the unquoted string for a literal in double quotes.\<close>

definition literalString :: "string \<Rightarrow> string option" where
  "literalString lit =
     (case lit of
        [] \<Rightarrow> None
      | q # cs \<Rightarrow>
          if q = CHR 0x60 then
            (if cs \<noteq> [] \<and> last cs = CHR 0x60 \<and> CHR 0x60 \<notin> set (butlast cs)
             then Some (filter (\<lambda>c. c \<noteq> CHR 0x0D) (butlast cs))
             else None)
          else Unquote lit)"

text \<open>"The field carries a tag entry for T": the entry that the conventional lookup
  finds under \<open>T\<close> in the field's tag string.\<close>

definition tagEntry :: "Field \<Rightarrow> string \<Rightarrow> string option" where
  "tagEntry field T =
     (case Field_Tag field of
        None \<Rightarrow> None
      | Some lit \<Rightarrow>
          (case literalString lit of
             None \<Rightarrow> None
           | Some s \<Rightarrow> StructTag_Lookup s T))"

text \<open>The key as section 4.2 of the specification words it, for a field declared under
  the name \<open>n\<close>.\<close>

definition spec_fieldKey :: "string \<Rightarrow> Field \<Rightarrow> string \<Rightarrow> string" where
  "spec_fieldKey T field n =
     (if T \<noteq> [] then
        (case tagEntry field T of
           None \<Rightarrow> n
         | Some v \<Rightarrow> truncateAtComma v)
      else n)"

subsection \<open>Imports\<close>

text \<open>The path an import declares, and the last of its segments between slashes.\<close>

definition importPath :: "ImportSpec \<Rightarrow> string" where
  \<open>importPath i = Trim (ImportSpec_Path i) ''"''\<close>

definition lastSegment :: "string \<Rightarrow> string" where
  "lastSegment path = rev (takeWhile (\<lambda>c. c \<noteq> CHR ''/'') (rev path))"



text \<open>What the loop of \<open>qualify\<close> tests: the last segment of the path, whether or not the
  import has an explicit name, or the explicit name.\<close>

definition importMatches :: "string \<Rightarrow> ImportSpec \<Rightarrow> bool" where
  "importMatches a i = (lastSegment (importPath i) = a \<or> ImportSpec_Name i = Some a)"

definition resolveImport :: "ImportSpec list \<Rightarrow> string \<Rightarrow> string option" where
  "resolveImport imp a = map_option importPath (find (importMatches a) imp)"

text \<open>The import as \<open>Import\<close> registers it with the file: the path, and the explicit name
  marked as an alias when there is one.\<close>

definition copyImport :: "ImportSpec \<Rightarrow> string \<times> importdef" where
  "copyImport i =
     (importPath i,
      case ImportSpec_Name i of
        None \<Rightarrow> importdef [] False
      | Some a \<Rightarrow> importdef a True)"

subsection \<open>Type expressions\<close>

text \<open>The type expressions of the specification, their form in the syntax tree, and
  the output type expressions with the \<open>jen\<close> code that stands for each.\<close>

datatype TypeExpr =
    Named string
  | Qualified string string
  | Pointer TypeExpr
  | Sequence TypeExpr
  | Mapping TypeExpr TypeExpr

fun toExpr :: "TypeExpr \<Rightarrow> Expr" where
  "toExpr (Named n) = Ident n"
| "toExpr (Qualified a n) = SelectorExpr (Ident a) n"
| "toExpr (Pointer t) = StarExpr (toExpr t)"
| "toExpr (Sequence t) = ArrayType None (toExpr t)"
| "toExpr (Mapping k v) = MapType (toExpr k) (toExpr v)"

datatype OutType =
    OutNamed string
  | OutQualified string string
  | OutPointer OutType
  | OutSequence OutType
  | OutMapping OutType OutType

fun jenCode :: "OutType \<Rightarrow> Code" where
  "jenCode (OutNamed n) = Statement [jen_Id n]"
| "jenCode (OutQualified path n) = Statement [jen_Qual path n]"
| "jenCode (OutPointer t) = Statement [jen_Op ''*'', jenCode t]"
| "jenCode (OutSequence t) = Statement [jen_Index [], jenCode t]"
| "jenCode (OutMapping k v) = Statement [jen_Map (jenCode k), jenCode v]"

text \<open>The translation of section 4.4, over a lookup of import names.\<close>

fun translate :: "(string \<Rightarrow> string option) \<Rightarrow> TypeExpr \<Rightarrow> OutType option" where
  "translate lk (Named n) = Some (OutNamed n)"
| "translate lk (Qualified a n) = map_option (\<lambda>path. OutQualified path n) (lk a)"
| "translate lk (Pointer t) = map_option OutPointer (translate lk t)"
| "translate lk (Sequence t) = map_option OutSequence (translate lk t)"
| "translate lk (Mapping k v) =
     (case translate lk k of
        None \<Rightarrow> None
      | Some k' \<Rightarrow> map_option (OutMapping k') (translate lk v))"

subsection \<open>The members of a generated unit\<close>

text \<open>
  What a statement of the generated file is: a type definition (with the name of the
  type), an accessor or a mutator (with the receiver's type and the function's name), a
  comment or an empty line. An accessor is a function on the receiver \<open>p\<close> without
  parameters, a mutator one with a single parameter.
\<close>

datatype member =
    TypeDef string
  | Accessor string string
  | Mutator string string
  | CommentLine
  | BlankLine
  | OtherMember

fun isComment :: "Code \<Rightarrow> bool" where
  "isComment (jen_Comment t) = True"
| "isComment c = False"

fun idOf :: "Code \<Rightarrow> string option" where
  "idOf (jen_Id n) = Some n"
| "idOf c = None"

fun paramsOf :: "Code \<Rightarrow> Code list option" where
  "paramsOf (jen_Params ps) = Some ps"
| "paramsOf c = None"

fun itemsOf :: "Code \<Rightarrow> Code list option" where
  "itemsOf (Statement cs) = Some cs"
| "itemsOf c = None"

definition receiverOf :: "Code \<Rightarrow> string option" where
  "receiverOf c =
     (case paramsOf c of
        Some [r] \<Rightarrow>
          (case itemsOf r of
             Some [p, t] \<Rightarrow> if p = jen_Id ''p'' then idOf t else None
           | _ \<Rightarrow> None)
      | _ \<Rightarrow> None)"

definition memberOf :: "Code \<Rightarrow> member" where
  "memberOf c =
     (case itemsOf c of
        Some [x] \<Rightarrow>
          if isComment x then CommentLine else if x = jen_Line then BlankLine else OtherMember
      | Some [ty, n, m, a] \<Rightarrow>
          if ty = jen_Type \<and> m = jen_Map (Statement [jen_String]) \<and> a = jen_Any
          then (case idOf n of Some tn \<Rightarrow> TypeDef tn | None \<Rightarrow> OtherMember)
          else OtherMember
      | Some [fn, recv, n, ps, t, b] \<Rightarrow>
          if fn = jen_Func then
            (case (receiverOf recv, idOf n, paramsOf ps) of
               (Some r, Some fname, Some []) \<Rightarrow> Accessor r fname
             | (Some r, Some fname, Some [v]) \<Rightarrow> Mutator r fname
             | _ \<Rightarrow> OtherMember)
          else OtherMember
      | _ \<Rightarrow> OtherMember)"

fun isTypeDef :: "member \<Rightarrow> bool" where
  "isTypeDef (TypeDef n) = True"
| "isTypeDef m = False"


text \<open>The comment and the function that \<open>AccessFunc\<close> and \<open>WithFunc\<close> build for a field,
  by the name of the partial type, the name and the key of the field and its translated
  type.\<close>

definition accessorComment :: "string \<Rightarrow> string \<Rightarrow> string" where
  "accessorComment n k =
     n @ '' returns the value of the '' @ [CHR 0x27] @ k @ [CHR 0x27] @ '' field.''"

definition accessorCode :: "string \<Rightarrow> string \<Rightarrow> string \<Rightarrow> Code \<Rightarrow> Code" where
  "accessorCode tn n k t =
     Statement
       [jen_Func, jen_Params [Statement [jen_Id ''p'', jen_Id tn]], jen_Id n, jen_Params [], t,
        jen_Block
          [Statement
             [jen_Return [Statement [jen_Id ''p'', jen_Index [Statement [jen_Lit k]]]],
              jen_Assert t]]]"

definition mutatorComment :: "string \<Rightarrow> string" where
  "mutatorComment n = ''With'' @ n @ '' updates p with the given v and returns p again.''"

definition mutatorCode :: "string \<Rightarrow> string \<Rightarrow> string \<Rightarrow> Code \<Rightarrow> Code" where
  "mutatorCode tn n k t =
     Statement
       [jen_Func, jen_Params [Statement [jen_Id ''p'', jen_Id tn]], jen_Id (''With'' @ n),
        jen_Params [Statement [jen_Id ''v'', t]], jen_Id tn,
        jen_Block
          [Statement [jen_Id ''p'', jen_Index [Statement [jen_Lit k]], jen_Op ''='', jen_Id ''v''],
           Statement [jen_Return [Statement [jen_Id ''p'']]]]]"

text \<open>A record declaration is a type specification of a struct type; its partial type
  is named by the prefix and its own name; a field is declared under its first name.\<close>

definition isRecord :: "TypeSpec \<Rightarrow> bool" where
  "isRecord ts = (case TypeSpec_Type ts of StructType flds \<Rightarrow> True | _ \<Rightarrow> False)"

definition recordFields :: "TypeSpec \<Rightarrow> Field list" where
  "recordFields ts = (case TypeSpec_Type ts of StructType flds \<Rightarrow> flds | _ \<Rightarrow> [])"

definition partialName :: "GeneratorOpts \<Rightarrow> TypeSpec \<Rightarrow> string" where
  "partialName os ts = TypePrefix os @ TypeSpec_Name ts"

definition declaredName :: "Field \<Rightarrow> string" where
  "declaredName field = (case Field_Names field of [] \<Rightarrow> [] | n # ns \<Rightarrow> n)"

text \<open>The members the specification expects for a field and for a record: the type
  definition, then for each field in order its accessor and then its mutator (each
  under a comment and followed by an empty line).\<close>

definition fieldMembers :: "GeneratorOpts \<Rightarrow> TypeSpec \<Rightarrow> Field \<Rightarrow> member list" where
  "fieldMembers os ts field =
     [CommentLine, Accessor (partialName os ts) (declaredName field), BlankLine,
      CommentLine, Mutator (partialName os ts) (''With'' @ declaredName field), BlankLine]"

definition recordMembers :: "GeneratorOpts \<Rightarrow> TypeSpec \<Rightarrow> member list" where
  "recordMembers os ts =
     [CommentLine, TypeDef (partialName os ts)]
       @ concat (map (fieldMembers os ts) (recordFields ts))"


text \<open>The fields of all the record declarations of a file, in the order of the traversal;
  the error a field gives rise to, if any (it has no name, or its type does not
  translate); and the first error among the fields of a list.\<close>

definition recordFieldsOf :: "ast_File \<Rightarrow> Field list" where
  "recordFieldsOf f = concat (map recordFields (filter isRecord (Inspect f)))"

definition fieldError :: "ImportSpec list \<Rightarrow> Field \<Rightarrow> panic option" where
  "fieldError imp field =
     (if Field_Names field = [] then Some (Panic ''field must have a name'')
      else (case determineType (Field_Type field) imp of
              Inl e \<Rightarrow> Some e
            | Inr t \<Rightarrow> None))"

fun firstError :: "ImportSpec list \<Rightarrow> Field list \<Rightarrow> panic option" where
  "firstError imp [] = None"
| "firstError imp (field # flds) =
     (case fieldError imp field of
        Some e \<Rightarrow> Some e
      | None \<Rightarrow> firstError imp flds)"

text \<open>The record declarations among the top-level declarations of a file.\<close>

definition topLevelRecords :: "ast_File \<Rightarrow> TypeSpec list" where
  "topLevelRecords f =
     concat (map (\<lambda>d. case d of
                        GenDecl specs \<Rightarrow>
                          concat (map (\<lambda>s. case s of
                                             TypeSpecNode ts \<Rightarrow> if isRecord ts then [ts] else []
                                           | _ \<Rightarrow> []) specs)
                      | _ \<Rightarrow> [])
                 (File_Decls f))"

subsection \<open>The inputs of the scenarios\<close>

definition userOpts :: GeneratorOpts where
  "userOpts = \<lparr>Package = ''partial'', StructTag = ''particle'', TypePrefix = ''Partial''\<rparr>"



definition nameField :: Field where
  \<open>nameField = Field [''Name''] (Ident ''string'') (Some ''`particle:"name"`'')\<close>

definition ageField :: Field where
  "ageField = Field [''Age''] (Ident ''int'') None"

text \<open>The record \<open>User\<close> of the end-to-end scenario, in a file without imports.\<close>

definition userFile :: ast_File where
  "userFile =
     ast_File [] [GenDecl [TypeSpecNode (TypeSpec ''User'' (StructType [nameField, ageField]))]]"

text \<open>A file whose only struct type is declared inside the body of a function.\<close>

definition localFile :: ast_File where
  "localFile =
     ast_File []
       [FuncDecl ''f'' [DeclStmt (GenDecl [TypeSpecNode (TypeSpec ''Local'' (StructType []))])]]"


text \<open>A file with a type that is not a record, a record declared inside a function and a
  record declared at top level; and a file without any record.\<close>

definition mixedFile :: ast_File where
  "mixedFile =
     ast_File []
       [GenDecl [TypeSpecNode (TypeSpec ''Id'' (Ident ''int''))],
        FuncDecl ''f'' [DeclStmt (GenDecl [TypeSpecNode (TypeSpec ''Local'' (StructType []))])],
        GenDecl [TypeSpecNode (TypeSpec ''User'' (StructType [ageField]))]]"

definition plainFile :: ast_File where
  "plainFile = ast_File [] [GenDecl [TypeSpecNode (TypeSpec ''Id'' (Ident ''int''))]]"

text \<open>The record \<open>Reader\<close> with the field \<open>Age int\<close> and the embedded field \<open>Base\<close>; the
  record \<open>Stamp\<close> with the fields \<open>Age int\<close> and \<open>At time.Time\<close> in a file that imports
  nothing; and the field entry \<open>A, B int\<close>.\<close>

definition embeddedField :: Field where
  "embeddedField = Field [] (Ident ''Base'') None"

definition readerSpec :: TypeSpec where
  "readerSpec = TypeSpec ''Reader'' (StructType [ageField, embeddedField])"

definition readerFile :: ast_File where
  "readerFile = ast_File [] [GenDecl [TypeSpecNode readerSpec]]"






section \<open>Properties\<close>

declare StructTag_Lookup.simps [simp del]

subsection \<open>The library functions\<close>

lemma Index_truncate:
  "(if Index s c \<noteq> - 1 then take (nat (Index s c)) s else s) = takeWhile (\<lambda>x. x \<noteq> c) s"
proof (cases "c \<in> set s")
  case True
  then show ?thesis
    by (simp add: Index_def takeWhile_eq_take [symmetric])
next
  case False
  then have "takeWhile (\<lambda>x. x \<noteq> c) s = s"
    by (auto simp: takeWhile_eq_all_conv)
  with False show ?thesis
    by (simp add: Index_def del: takeWhile_eq_all_conv)
qed

lemma Split_no_sep: "c \<notin> set s \<Longrightarrow> Split s c = [s]"
  by (induction s) auto

lemma Split_not_Nil: "Split s c \<noteq> []"
  by (induction s) (auto split: list.splits)

lemma Split_sep: "c \<in> set s \<Longrightarrow> \<exists>p q ps. Split s c = p # q # ps"
proof (induction s)
  case Nil
  then show ?case by simp
next
  case (Cons x xs)
  show ?case
  proof (cases "x = c")
    case True
    then show ?thesis
      using Split_not_Nil [of xs c] by (cases "Split xs c") auto
  next
    case False
    with Cons show ?thesis by auto
  qed
qed

text \<open>The last piece of a split is the last segment of the string.\<close>

lemma last_Split: "last (Split s c) = rev (takeWhile (\<lambda>x. x \<noteq> c) (rev s))"
proof (induction s)
  case Nil
  then show ?case by simp
next
  case (Cons x xs)
  show ?case
  proof (cases "c \<in> set xs")
    case True
    then obtain p q ps where s: "Split xs c = p # q # ps"
      using Split_sep by blast
    from True have "takeWhile (\<lambda>x. x \<noteq> c) (rev xs @ [x]) = takeWhile (\<lambda>x. x \<noteq> c) (rev xs)"
      by (auto simp: takeWhile_append)
    with s Cons show ?thesis
      by auto
  next
    case False
    then have s: "Split xs c = [xs]"
      by (rule Split_no_sep)
    from False have "takeWhile (\<lambda>x. x \<noteq> c) (rev xs @ [x]) = rev xs @ takeWhile (\<lambda>x. x \<noteq> c) [x]"
      by (simp add: takeWhile_append)
    with s show ?thesis
      by auto
  qed
qed

lemma qualifyLoop_find:
  "qualifyLoop a sel imp =
     (case find (importMatches a) imp of
        None \<Rightarrow> ([], [], Some ''could not find import'')
      | Some i \<Rightarrow> (sel, importPath i, None))"
  by (induction imp) (auto simp: Let_def importMatches_def importPath_def lastSegment_def last_Split)

subsection \<open>What the methods of the generator do to the file\<close>

lemma emit_simps [simp]:
  "opts (emit g c) = opts g"
  "file_items (jfile (emit g c)) = file_items (jfile g) @ [c]"
  "file_hints (jfile (emit g c)) = file_hints (jfile g)"
  "file_name (jfile (emit g c)) = file_name (jfile g)"
  "file_headers (jfile (emit g c)) = file_headers (jfile g)"
  by (simp_all add: emit_def)

lemma Line_simps [simp]:
  "opts (Line g) = opts g"
  "file_items (jfile (Line g)) = file_items (jfile g) @ [Statement [jen_Line]]"
  "file_hints (jfile (Line g)) = file_hints (jfile g)"
  by (simp_all add: Line_def)

lemma fieldNames_cong:
  assumes "Field_Names f = Field_Names f'" and "Field_Tag f = Field_Tag f'"
    and "opts g = opts g'"
  shows "fieldNames g f = fieldNames g' f'"
  using assms
  by (cases "Field_Tag f'"; cases "Field_Names f'")
    (simp_all add: fieldNames_def firstName_def Let_def)

lemma AccessFunc_unfold:
  "AccessFunc g typ field imp =
     (if Field_Names field = [] then Inl (Panic ''field must have a name'')
      else
        (case fieldNames g field of
           Inl e \<Rightarrow> Inl e
         | Inr nk \<Rightarrow>
             (case determineType (Field_Type field) imp of
                Inl e \<Rightarrow> Inl e
              | Inr t \<Rightarrow>
                  Inr (emit (emit g (Statement [jen_Comment (accessorComment (fst nk) (snd nk))]))
                         (accessorCode (partialName (opts g) typ) (fst nk) (snd nk) t)))))"
  by (auto simp: AccessFunc_def Let_def accessorComment_def accessorCode_def partialName_def
      split: sum.splits prod.splits)

lemma WithFunc_unfold:
  "WithFunc g typ field imp =
     (case fieldNames g field of
        Inl e \<Rightarrow> Inl e
      | Inr nk \<Rightarrow>
          (case determineType (Field_Type field) imp of
             Inl e \<Rightarrow> Inl e
           | Inr t \<Rightarrow>
               Inr (emit (emit g (Statement [jen_Comment (mutatorComment (fst nk))]))
                      (mutatorCode (partialName (opts g) typ) (fst nk) (snd nk) t))))"
  by (auto simp: WithFunc_def Let_def mutatorComment_def mutatorCode_def partialName_def
      split: sum.splits prod.splits)

subsection \<open>Field keys\<close>

lemma fieldNames_by_first:
  assumes "Field_Names field = n # ns"
  shows "fieldNames g field =
     Inr (n,
          if StructTag (opts g) = [] then n
          else (case Field_Tag field of
                  None \<Rightarrow> n
                | Some lit \<Rightarrow>
                    if StructTag_Get lit (StructTag (opts g)) = [] then n
                    else truncateAtComma (StructTag_Get lit (StructTag (opts g)))))"
  using assms
    Index_truncate [of "StructTag_Get (the (Field_Tag field)) (StructTag (opts g))" "CHR '',''"]
  by (auto simp: fieldNames_def firstName_def Let_def truncateAtComma_def split: option.splits)

lemma Get_second_entry:
  \<open>StructTag_Get ''`json:"a" particle:"nm,omitempty"`'' ''particle'' = ''nm,omitempty''\<close>
  by code_simp





subsection \<open>Type expressions\<close>

lemma determineType_Qualified:
  "determineType (SelectorExpr (Ident a) n) imp =
     (case find (importMatches a) imp of
        None \<Rightarrow> Inl (Panic ''could not qualify type: could not find import'')
      | Some i \<Rightarrow> Inr (Statement [jen_Qual (importPath i) n]))"
  by (cases "find (importMatches a) imp") (simp_all add: qualify_def qualifyLoop_find)

lemma determineType_translate:
  "determineType (toExpr t) imp =
     (case translate (resolveImport imp) t of
        None \<Rightarrow> Inl (Panic ''could not qualify type: could not find import'')
      | Some ot \<Rightarrow> Inr (jenCode ot))"
proof (induction t)
  case (Qualified a n)
  show ?case
    by (simp add: determineType_Qualified resolveImport_def del: determineType.simps(2)
        split: option.splits)
qed (simp_all split: option.splits)

text \<open>
  C5. For every type expression built from Named, Qualified, Pointer, Sequence and
  Mapping, \<open>determineType\<close> returns the code of the output type expression of the same
  structure: the translation descends through pointers, sequences and mappings and
  rewrites only the qualified names (it fails as a whole when one of them does not
  resolve). In particular a pointer to a sequence of \<open>int\<close> is translated to a pointer
  to a sequence of the named type \<open>int\<close>.
\<close>

theorem determineType_shape:
  "determineType (toExpr t) imp =
     (case translate (resolveImport imp) t of
        None \<Rightarrow> Inl (Panic ''could not qualify type: could not find import'')
      | Some ot \<Rightarrow> Inr (jenCode ot))
   \<and> determineType (toExpr (Pointer (Sequence (Named ''int'')))) imp =
       Inr (jenCode (OutPointer (OutSequence (OutNamed ''int''))))
   \<and> jenCode (OutPointer (OutSequence (OutNamed ''int''))) =
       Statement [jen_Op ''*'', Statement [jen_Index [], Statement [jen_Id ''int'']]]"
  by (simp add: determineType_translate)


subsection \<open>The members of the generated unit\<close>

lemma memberOf_simps [simp]:
  "memberOf (Statement [jen_Comment c]) = CommentLine"
  "memberOf (Statement [jen_Line]) = BlankLine"
  "memberOf (Statement [jen_Type, jen_Id n, jen_Map (Statement [jen_String]), jen_Any]) = TypeDef n"
  "memberOf (accessorCode tn n k t) = Accessor tn n"
  "memberOf (mutatorCode tn n k t) = Mutator tn (''With'' @ n)"
  by (simp_all add: memberOf_def receiverOf_def accessorCode_def mutatorCode_def)

lemma Type_record:
  assumes "isRecord ts"
  shows "Type g ts =
     Inr (emit (emit g (Statement [jen_Comment (partialName (opts g) ts @ '' is a partial type.'')]))
            (Statement [jen_Type, jen_Id (partialName (opts g) ts),
                        jen_Map (Statement [jen_String]), jen_Any]))"
  using assms by (auto simp: Type_def isRecord_def partialName_def split: Expr.splits)

lemma fieldNames_declared:
  assumes "fieldNames g field = Inr nk"
  shows "fst nk = declaredName field"
  using assms
  by (cases "Field_Names field"; cases "Field_Tag field")
    (auto simp: fieldNames_def firstName_def declaredName_def Let_def split: if_splits)

lemma field_step:
  assumes a: "AccessFunc g ts field imp = Inr g1"
    and w: "WithFunc (Line g1) ts field imp = Inr g2"
  shows "opts (Line g2) = opts g \<and> file_hints (jfile (Line g2)) = file_hints (jfile g) \<and>
    map memberOf (file_items (jfile (Line g2))) =
      map memberOf (file_items (jfile g)) @ fieldMembers (opts g) ts field"
proof -
  from a obtain nk t where nk: "fieldNames g field = Inr nk"
    and t: "determineType (Field_Type field) imp = Inr t"
    and g1: "g1 = emit (emit g (Statement [jen_Comment (accessorComment (fst nk) (snd nk))]))
                    (accessorCode (partialName (opts g) ts) (fst nk) (snd nk) t)"
    by (auto simp: AccessFunc_unfold split: if_splits sum.splits)
  have "fieldNames (Line g1) field = fieldNames g field"
    by (rule fieldNames_cong) (simp_all add: g1)
  with w nk t have g2: "g2 = emit (emit (Line g1) (Statement [jen_Comment (mutatorComment (fst nk))]))
                    (mutatorCode (partialName (opts g) ts) (fst nk) (snd nk) t)"
    by (simp add: WithFunc_unfold g1)
  from nk have "fst nk = declaredName field"
    by (rule fieldNames_declared)
  then show ?thesis
    by (simp add: g1 g2 fieldMembers_def)
qed

lemma fieldsLoop_members:
  assumes "fieldsLoop g ts flds imp = Inr g'"
  shows "opts g' = opts g \<and> file_hints (jfile g') = file_hints (jfile g) \<and>
    map memberOf (file_items (jfile g')) =
      map memberOf (file_items (jfile g)) @ concat (map (fieldMembers (opts g) ts) flds)"
  using assms
proof (induction flds arbitrary: g)
  case Nil
  then show ?case by simp
next
  case (Cons field flds)
  from Cons.prems obtain g1 g2 where a: "AccessFunc g ts field imp = Inr g1"
    and w: "WithFunc (Line g1) ts field imp = Inr g2"
    and r: "fieldsLoop (Line g2) ts flds imp = Inr g'"
    by (auto split: sum.splits)
  from field_step [OF a w] Cons.IH [OF r] show ?case
    by simp
qed

lemma visit_not_record:
  assumes "\<not> isRecord ts"
  shows "visit g imp ts = Inr g"
  using assms by (auto simp: visit_def isRecord_def split: Expr.splits)

lemma visit_record:
  assumes "isRecord ts"
  shows "visit g imp ts =
     (case Type g ts of
        Inl e \<Rightarrow> Inl e
      | Inr g1 \<Rightarrow> fieldsLoop g1 ts (recordFields ts) imp)"
  using assms
  by (auto simp: visit_def isRecord_def recordFields_def split: Expr.splits sum.splits)

lemma visit_members:
  assumes "visit g imp ts = Inr g'"
  shows "opts g' = opts g \<and> file_hints (jfile g') = file_hints (jfile g) \<and>
    map memberOf (file_items (jfile g')) =
      map memberOf (file_items (jfile g)) @ (if isRecord ts then recordMembers (opts g) ts else [])"
proof (cases "isRecord ts")
  case True
  with assms have "fieldsLoop
      (emit (emit g (Statement [jen_Comment (partialName (opts g) ts @ '' is a partial type.'')]))
         (Statement [jen_Type, jen_Id (partialName (opts g) ts),
                     jen_Map (Statement [jen_String]), jen_Any]))
      ts (recordFields ts) imp = Inr g'"
    by (simp add: visit_record Type_record)
  from fieldsLoop_members [OF this] True show ?thesis
    by (simp add: recordMembers_def)
next
  case False
  with assms show ?thesis
    by (simp add: visit_not_record)
qed

lemma visitAll_members:
  assumes "visitAll g imp tss = Inr g'"
  shows "opts g' = opts g \<and> file_hints (jfile g') = file_hints (jfile g) \<and>
    map memberOf (file_items (jfile g')) =
      map memberOf (file_items (jfile g))
        @ concat (map (recordMembers (opts g)) (filter isRecord tss))"
  using assms
proof (induction tss arbitrary: g)
  case Nil
  then show ?case by simp
next
  case (Cons ts tss)
  from Cons.prems obtain g1 where v: "visit g imp ts = Inr g1"
    and r: "visitAll g1 imp tss = Inr g'"
    by (auto split: sum.splits)
  from visit_members [OF v] Cons.IH [OF r] show ?case
    by simp
qed

lemma Imports_effect:
  "opts (Imports g imp) = opts g \<and> file_items (jfile (Imports g imp)) = file_items (jfile g) \<and>
   file_hints (jfile (Imports g imp)) = file_hints (jfile g) @ map copyImport imp"
  by (induction imp arbitrary: g)
    (auto simp: Import_def hint_def copyImport_def importPath_def split: option.splits)

lemma File_members:
  assumes "File g f = Inr g'"
  shows "opts g' = opts g \<and>
    file_hints (jfile g') = file_hints (jfile g) @ map copyImport (File_Imports f) \<and>
    map memberOf (file_items (jfile g')) =
      map memberOf (file_items (jfile g))
        @ concat (map (recordMembers (opts g)) (filter isRecord (Inspect f)))"
  using visitAll_members [OF assms [unfolded File_def]] Imports_effect [of g "File_Imports f"]
  by simp

lemma NewGenerator_simps [simp]:
  "opts (NewGenerator os) = os"
  "file_items (jfile (NewGenerator os)) = []"
  "file_hints (jfile (NewGenerator os)) = []"
  by (simp_all add: NewGenerator_def)


lemma recordMembers_typeDefs:
  "filter isTypeDef (recordMembers os ts) = [TypeDef (partialName os ts)]"
proof -
  have "filter isTypeDef (fieldMembers os ts field) = []" for field
    by (simp add: fieldMembers_def)
  then show ?thesis
    by (simp add: recordMembers_def filter_concat comp_def)
qed





subsection \<open>Which declarations are generated\<close>

lemma visitAll_records: "visitAll g imp tss = visitAll g imp (filter isRecord tss)"
  by (induction tss arbitrary: g) (auto simp: visit_not_record split: sum.splits)

lemma userOpts_simps [simp]:
  "Package userOpts = ''partial''"
  "StructTag userOpts = ''particle''"
  "TypePrefix userOpts = ''Partial''"
  by (simp_all add: userOpts_def)

lemma mixedFile_runs: "\<not> isl (File (NewGenerator userOpts) mixedFile)"
  by code_simp

text \<open>
  C6 (as amended). Exactly the record declarations of a file, at top level or nested
  (inside the body of a function, say), produce generated output, in the order of the
  traversal: a type specification that is not a record leaves the file as it is and
  raises no error, the generation is that of the record declarations alone, each of
  them gets one type definition when the generation succeeds, and a file without a
  record is generated without members and without error.
\<close>

theorem records_anywhere:
  "(\<not> isRecord ts \<longrightarrow> visit g imp ts = Inr g)
   \<and> File g f =
       visitAll (Imports g (File_Imports f)) (File_Imports f) (filter isRecord (Inspect f))
   \<and> (File (NewGenerator os) f = Inr g' \<longrightarrow>
        filter isTypeDef (map memberOf (file_items (jfile g'))) =
          map (\<lambda>ts. TypeDef (partialName os ts)) (filter isRecord (Inspect f)))
   \<and> (filter isRecord (Inspect f) = [] \<longrightarrow> File g f = Inr (Imports g (File_Imports f)))"
proof -
  have f: "File g f =
      visitAll (Imports g (File_Imports f)) (File_Imports f) (filter isRecord (Inspect f))"
    unfolding File_def by (rule visitAll_records)
  have "filter isTypeDef (map memberOf (file_items (jfile g'))) =
          map (\<lambda>ts. TypeDef (partialName os ts)) (filter isRecord (Inspect f))"
    if "File (NewGenerator os) f = Inr g'"
  proof -
    have "filter isTypeDef (concat (map (recordMembers os) tss)) =
        map (\<lambda>ts. TypeDef (partialName os ts)) tss" for tss
      by (induction tss) (simp_all add: recordMembers_typeDefs)
    with File_members [OF that] show ?thesis
      by simp
  qed
  with f show ?thesis
    by (simp add: visit_not_record)
qed

theorem records_anywhere_witness:
  "visit (NewGenerator userOpts) [] (TypeSpec ''Id'' (Ident ''int'')) = Inr (NewGenerator userOpts)
   \<and> (\<exists>g'. File (NewGenerator userOpts) mixedFile = Inr g' \<and>
        filter isTypeDef (map memberOf (file_items (jfile g'))) =
          [TypeDef ''PartialLocal'', TypeDef ''PartialUser''])
   \<and> File (NewGenerator userOpts) plainFile = Inr (NewGenerator userOpts)"
proof -
  from mixedFile_runs obtain g' where g': "File (NewGenerator userOpts) mixedFile = Inr g'"
    by (cases "File (NewGenerator userOpts) mixedFile") auto
  have i: "filter isRecord (Inspect mixedFile) =
      [TypeSpec ''Local'' (StructType []), TypeSpec ''User'' (StructType [ageField])]"
    by (simp add: Inspect_def mixedFile_def isRecord_def ageField_def)
  note r = records_anywhere
    [of "TypeSpec ''Id'' (Ident ''int'')" "NewGenerator userOpts" "[]" mixedFile userOpts g']
  have m: "filter isTypeDef (map memberOf (file_items (jfile g'))) =
      [TypeDef ''PartialLocal'', TypeDef ''PartialUser'']"
    using r [THEN conjunct2, THEN conjunct2, THEN conjunct1, rule_format, OF g']
    by (simp add: i partialName_def)
  have v: "visit (NewGenerator userOpts) [] (TypeSpec ''Id'' (Ident ''int'')) =
      Inr (NewGenerator userOpts)"
    using r [THEN conjunct1] by (simp add: isRecord_def)
  have p: "File (NewGenerator userOpts) plainFile = Inr (NewGenerator userOpts)"
    using records_anywhere
      [of "TypeSpec ''Id'' (Ident ''int'')" "NewGenerator userOpts" "[]" plainFile userOpts g',
        THEN conjunct2, THEN conjunct2, THEN conjunct2]
    by (simp add: Inspect_def plainFile_def isRecord_def)
  from g' m have "\<exists>g'. File (NewGenerator userOpts) mixedFile = Inr g' \<and>
        filter isTypeDef (map memberOf (file_items (jfile g'))) =
          [TypeDef ''PartialLocal'', TypeDef ''PartialUser'']"
    by (intro exI [of _ g'] conjI)
  with v p show ?thesis
    by (intro conjI)
qed

text \<open>
  C6 as the specification states it fails on a file whose only record is declared inside
  a function: no top-level declaration of it is a record, and yet the generated unit
  holds the definition of a partial type.
\<close>

theorem records_anywhere_counterexample:
  "topLevelRecords localFile = []
   \<and> map_sum id (\<lambda>g. file_items (jfile g)) (File (NewGenerator userOpts) localFile) =
       Inr [Statement [jen_Comment ''PartialLocal is a partial type.''],
            Statement [jen_Type, jen_Id ''PartialLocal'', jen_Map (Statement [jen_String]),
                       jen_Any]]"
  by code_simp

subsection \<open>Imports\<close>



subsection \<open>Errors abort the generation\<close>

lemma AccessFunc_error: "AccessFunc g ts field imp = Inl e \<longleftrightarrow> fieldError imp field = Some e"
proof (cases "Field_Names field")
  case Nil
  then show ?thesis
    by (auto simp: AccessFunc_def fieldError_def)
next
  case (Cons n ns)
  with fieldNames_by_first [OF Cons, of g] show ?thesis
    by (auto simp: AccessFunc_unfold fieldError_def split: sum.splits)
qed

lemma AccessFunc_then_WithFunc:
  assumes "AccessFunc g ts field imp = Inr g1"
  shows "\<exists>g2. WithFunc (Line g1) ts field imp = Inr g2"
proof -
  from assms obtain nk t where nk: "fieldNames g field = Inr nk"
    and t: "determineType (Field_Type field) imp = Inr t"
    and g1: "opts g1 = opts g"
    by (auto simp: AccessFunc_unfold split: if_splits sum.splits)
  have "fieldNames (Line g1) field = fieldNames g field"
    by (rule fieldNames_cong) (simp_all add: g1)
  with nk t show ?thesis
    by (simp add: WithFunc_unfold)
qed

text \<open>The loop over the fields, the visit of the type specifications and the generation
  of a file fail with the first error among the fields, and only then.\<close>

lemma fieldsLoop_error:
  "fieldsLoop g ts flds imp = Inl e \<longleftrightarrow> firstError imp flds = Some e"
proof (induction flds arbitrary: g)
  case Nil
  show ?case by simp
next
  case (Cons field flds)
  show ?case
  proof (cases "AccessFunc g ts field imp")
    case (Inl e')
    then have "fieldError imp field = Some e'"
      by (simp add: AccessFunc_error)
    with Inl show ?thesis
      by simp
  next
    case (Inr g1)
    then have n: "fieldError imp field = None"
      using AccessFunc_error [of g ts field imp] by (cases "fieldError imp field") auto
    from AccessFunc_then_WithFunc [OF Inr]
    obtain g2 where "WithFunc (Line g1) ts field imp = Inr g2"
      by blast
    with Inr n Cons.IH [of "Line g2"] show ?thesis
      by simp
  qed
qed

lemma visit_error:
  "visit g imp ts = Inl e \<longleftrightarrow> isRecord ts \<and> firstError imp (recordFields ts) = Some e"
proof (cases "isRecord ts")
  case True
  then show ?thesis
    by (simp add: visit_record Type_record fieldsLoop_error)
next
  case False
  then show ?thesis
    by (simp add: visit_not_record)
qed

lemma firstError_append:
  "firstError imp (xs @ ys) =
     (case firstError imp xs of
        Some e \<Rightarrow> Some e
      | None \<Rightarrow> firstError imp ys)"
  by (induction xs) (auto split: option.splits)

lemma firstError_None: "firstError imp flds = None \<longleftrightarrow> (\<forall>f \<in> set flds. fieldError imp f = None)"
  by (induction flds) (auto split: option.splits)

lemma visitAll_error:
  "visitAll g imp tss = Inl e \<longleftrightarrow>
     firstError imp (concat (map recordFields (filter isRecord tss))) = Some e"
proof (induction tss arbitrary: g)
  case Nil
  show ?case by simp
next
  case (Cons ts tss)
  show ?case
  proof (cases "visit g imp ts")
    case (Inl e')
    then have "isRecord ts" and "firstError imp (recordFields ts) = Some e'"
      by (simp_all add: visit_error)
    with Inl show ?thesis
      by (simp add: firstError_append)
  next
    case (Inr g1)
    have "firstError imp (recordFields ts) = None" if "isRecord ts"
      using that Inr visit_error [of g imp ts]
      by (cases "firstError imp (recordFields ts)") auto
    with Inr Cons.IH [of g1] show ?thesis
      by (simp add: firstError_append)
  qed
qed

lemma File_error:
  "File g f = Inl e \<longleftrightarrow> firstError (File_Imports f) (recordFieldsOf f) = Some e"
  by (simp add: File_def visitAll_error recordFieldsOf_def)

lemma File_fails:
  assumes "field \<in> set (recordFieldsOf f)" and "fieldError (File_Imports f) field = Some e"
  shows "\<exists>e'. File g f = Inl e'"
proof -
  from assms have "firstError (File_Imports f) (recordFieldsOf f) \<noteq> None"
    by (auto simp: firstError_None)
  then show ?thesis
    by (auto simp: File_error)
qed

lemma File_first_failure:
  assumes "recordFieldsOf f = before @ field # after"
    and "firstError (File_Imports f) before = None"
    and "fieldError (File_Imports f) field = Some e"
  shows "File g f = Inl e"
  using assms by (simp add: File_error firstError_append)

lemma readerFile_fields: "recordFieldsOf readerFile = [ageField] @ embeddedField # []"
  by (simp add: recordFieldsOf_def Inspect_def readerFile_def readerSpec_def isRecord_def
      recordFields_def ageField_def embeddedField_def)


lemma ageField_ok: "fieldError imp ageField = None"
  by (simp add: fieldError_def ageField_def)

text \<open>
  C8. A field without a name (an embedded field) is a hard error: \<open>AccessFunc\<close> panics
  on it with "field must have a name" and emits nothing. A file in which a record
  has such a field is never generated: \<open>File\<close> returns an error and no generated unit,
  so the field is not skipped and yields no accessor and no mutator; and the error is
  that very panic when no field of a record before it, in the order of the traversal,
  fails.
\<close>

theorem anonymous_field_aborts:
  assumes "Field_Names field = []"
  shows "AccessFunc g ts field imp = Inl (Panic ''field must have a name'')
    \<and> (field \<in> set (recordFieldsOf f) \<longrightarrow> (\<exists>e. File g0 f = Inl e))
    \<and> (recordFieldsOf f = before @ field # after
         \<and> firstError (File_Imports f) before = None \<longrightarrow>
         File g0 f = Inl (Panic ''field must have a name''))"
proof -
  have e: "fieldError imp' field = Some (Panic ''field must have a name'')" for imp'
    using assms by (simp add: fieldError_def)
  have 1: "AccessFunc g ts field imp = Inl (Panic ''field must have a name'')"
    by (simp add: AccessFunc_error e)
  have 2: "\<exists>e. File g0 f = Inl e" if "field \<in> set (recordFieldsOf f)"
    using that e by (rule File_fails)
  have 3: "File g0 f = Inl (Panic ''field must have a name'')"
    if "recordFieldsOf f = before @ field # after"
      and "firstError (File_Imports f) before = None"
    using that e by (rule File_first_failure)
  from 1 2 3 show ?thesis
    by simp
qed

theorem anonymous_field_aborts_witness:
  "Field_Names embeddedField = []
   \<and> embeddedField \<in> set (recordFieldsOf readerFile)
   \<and> AccessFunc (NewGenerator userOpts) readerSpec embeddedField [] =
       Inl (Panic ''field must have a name'')
   \<and> (\<exists>e. File (NewGenerator userOpts) readerFile = Inl e)
   \<and> File (NewGenerator userOpts) readerFile = Inl (Panic ''field must have a name'')"
proof -
  have names: "Field_Names embeddedField = []"
    by (simp add: embeddedField_def)
  have h: "recordFieldsOf readerFile = [ageField] @ embeddedField # []
      \<and> firstError (File_Imports readerFile) [ageField] = None"
    by (simp add: readerFile_fields ageField_ok)
  have m: "embeddedField \<in> set (recordFieldsOf readerFile)"
    by (simp add: readerFile_fields)
  note r = anonymous_field_aborts [OF names, of "NewGenerator userOpts" readerSpec "[]"
      readerFile "NewGenerator userOpts" "[ageField]" "[]"]
  from names m r [THEN conjunct1] r [THEN conjunct2, THEN conjunct1, rule_format, OF m]
    r [THEN conjunct2, THEN conjunct2, rule_format, OF h]
  show ?thesis
    by (intro conjI)
qed




subsection \<open>Fields that declare several names\<close>




subsection \<open>The end-to-end scenario\<close>

text \<open>
  A tag literal stands in the tree with its delimiters. On a literal that begins with a
  back-quote the name of the first entry begins with that back-quote, so the lookup of a
  name that does not begin with one passes over the first entry, whatever it is, and
  goes on with the rest of the literal; on a literal in double quotes the lookup finds
  nothing.
\<close>

lemma nextEntry_backquoted:
  assumes "nextEntry (CHR 0x60 # s) = Some (name, qvalue, rest)"
  shows "\<exists>name'. name = CHR 0x60 # name'"
  using assms by (auto simp: nextEntry_def Let_def split: if_splits)

lemma Lookup_backquoted_skips_first:
  assumes "\<And>T'. T \<noteq> CHR 0x60 # T'"
  shows "StructTag_Lookup (CHR 0x60 # s) T =
     (case nextEntry (CHR 0x60 # s) of
        None \<Rightarrow> None
      | Some (name, qvalue, rest) \<Rightarrow> StructTag_Lookup rest T)"
proof (cases "nextEntry (CHR 0x60 # s)")
  case None
  then show ?thesis
    by (simp add: StructTag_Lookup.simps)
next
  case (Some e)
  obtain name qvalue rest where e: "e = (name, qvalue, rest)"
    by (cases e)
  with Some nextEntry_backquoted [of s name qvalue rest] assms have "T \<noteq> name"
    by auto
  with Some e show ?thesis
    by (simp add: StructTag_Lookup.simps [of "CHR 0x60 # s"])
qed

lemma Lookup_doublequoted: "StructTag_Lookup (CHR 0x22 # s) T = None"
proof -
  have "nextEntry (CHR 0x22 # s) = None"
    by (simp add: nextEntry_def nameByte_def)
  then show ?thesis
    by (simp add: StructTag_Lookup.simps [of "CHR 0x22 # s"])
qed

text \<open>
  C2. On the record \<open>User\<close> of the scenario the generator defines the type
  \<open>PartialUser\<close> as a map from strings to any value, and the accessors \<open>Name\<close> and \<open>Age\<close>
  and the mutators \<open>WithName\<close> and \<open>WithAge\<close> of the field types. The key of \<open>Age\<close> is
  \<open>"Age"\<close>; but the key of the field \<open>Name\<close>, tagged \<open>`particle:"name"`\<close>, is \<open>"Name"\<close> and
  not \<open>"name"\<close>: the lookup runs on the tag literal with its back-quotes, reads the name
  of the first entry as \<open>`particle\<close>, and finds no entry \<open>particle\<close>.
\<close>

theorem user_scenario:
  \<open>File (NewGenerator userOpts) userFile =
     Inr \<lparr>opts = userOpts,
          jfile =
            \<lparr>file_name = ''partial'',
             file_headers = [''Code generated by particle.'',
                             ''https://github.com/lukasl-dev/particle''],
             file_hints = [],
             file_items =
               [Statement [jen_Comment ''PartialUser is a partial type.''],
                Statement [jen_Type, jen_Id ''PartialUser'', jen_Map (Statement [jen_String]),
                           jen_Any],
                Statement [jen_Comment (accessorComment ''Name'' ''Name'')],
                accessorCode ''PartialUser'' ''Name'' ''Name'' (Statement [jen_Id ''string'']),
                Statement [jen_Line],
                Statement [jen_Comment (mutatorComment ''Name'')],
                mutatorCode ''PartialUser'' ''Name'' ''Name'' (Statement [jen_Id ''string'']),
                Statement [jen_Line],
                Statement [jen_Comment (accessorComment ''Age'' ''Age'')],
                accessorCode ''PartialUser'' ''Age'' ''Age'' (Statement [jen_Id ''int'']),
                Statement [jen_Line],
                Statement [jen_Comment (mutatorComment ''Age'')],
                mutatorCode ''PartialUser'' ''Age'' ''Age'' (Statement [jen_Id ''int'']),
                Statement [jen_Line]]\<rparr>\<rparr>
   \<and> fieldNames (NewGenerator userOpts) nameField = Inr (''Name'', ''Name'')
   \<and> StructTag_Get ''`particle:"name"`'' ''particle'' = []
   \<and> spec_fieldKey ''particle'' nameField ''Name'' = ''name''\<close>
  by code_simp

end
